theory Spec2Isabelle
  imports Main
begin

section \<open>Go strings\<close>

text \<open>
  A Go \<^verbatim>\<open>string\<close> is a sequence of bytes, and so is \<^typ>\<open>string\<close> here: \<^verbatim>\<open>len\<close> is
  \<^const>\<open>length\<close>, \<^verbatim>\<open>s[:n]\<close> is \<^const>\<open>take\<close>, \<^verbatim>\<open>s[n:]\<close> is \<^const>\<open>drop\<close>. The functions of
  package \<^verbatim>\<open>strings\<close> that the handler calls are written out below.
\<close>

fun HasPrefix :: "string \<Rightarrow> string \<Rightarrow> bool" where
  "HasPrefix s [] = True"
| "HasPrefix [] (p # ps) = False"
| "HasPrefix (c # cs) (p # ps) = (c = p \<and> HasPrefix cs ps)"

definition HasSuffix :: "string \<Rightarrow> string \<Rightarrow> bool" where
  "HasSuffix s suf = HasPrefix (rev s) (rev suf)"

text \<open>\<^verbatim>\<open>strings.Index\<close>: the position of the first instance of \<open>sub\<close>, \<open>None\<close> for Go's -1.\<close>

fun Index :: "string \<Rightarrow> string \<Rightarrow> nat option" where
  "Index [] sub = (if sub = [] then Some 0 else None)"
| "Index (c # cs) sub =
     (if HasPrefix (c # cs) sub then Some 0 else map_option Suc (Index cs sub))"

definition Contains :: "string \<Rightarrow> string \<Rightarrow> bool" where
  "Contains s sub = (Index s sub \<noteq> None)"

text \<open>
  \<^verbatim>\<open>strings.Split(s, sep)\<close> cuts \<open>s\<close> at the instances of \<open>sep\<close> found from left to right,
  each search starting behind the previous instance. With an empty separator Go cuts after
  every UTF-8 sequence; the handler only splits on \<^verbatim>\<open>"::"\<close>, and the empty case is given
  for single-byte characters.
\<close>

function Split :: "string \<Rightarrow> string \<Rightarrow> string list" where
  "Split s sep =
     (case Index s sep of
        None \<Rightarrow> [s]
      | Some m \<Rightarrow>
          if sep = [] then map (\<lambda>c. [c]) s
          else take m s # Split (drop (m + length sep) s) sep)"
  by pat_completeness auto
termination
proof (relation "measure (\<lambda>(s, sep). length s)")
  show "wf (measure (\<lambda>(s, sep). length s))"
    by simp
next
  fix s sep :: string and m :: nat
  assume "Index s sep = Some m" and "sep \<noteq> []"
  then have "s \<noteq> []"
    by (cases s) simp_all
  with \<open>sep \<noteq> []\<close> show "((drop (m + length sep) s, sep), (s, sep)) \<in> measure (\<lambda>(s, sep). length s)"
    by (cases s; cases sep) simp_all
qed

declare Split.simps [simp del]

text \<open>
  \<^verbatim>\<open>strings.Count(s, substr)\<close>, the number of non-overlapping instances of \<open>substr\<close>, by
  which \<^verbatim>\<open>Split\<close> sizes its result. For the empty \<open>substr\<close> Go returns one more than the
  number of code points, given here for single-byte characters.
\<close>

function Count :: "string \<Rightarrow> string \<Rightarrow> nat" where
  "Count s substr =
     (case Index s substr of
        None \<Rightarrow> 0
      | Some i \<Rightarrow>
          if substr = [] then length s + 1
          else Suc (Count (drop (i + length substr) s) substr))"
  by pat_completeness auto
termination
proof (relation "measure (\<lambda>(s, substr). length s)")
  show "wf (measure (\<lambda>(s, substr). length s))"
    by simp
next
  fix s substr :: string and i :: nat
  assume "Index s substr = Some i" and "substr \<noteq> []"
  then have "s \<noteq> []"
    by (cases s) simp_all
  with \<open>substr \<noteq> []\<close>
  show "((drop (i + length substr) s, substr), (s, substr)) \<in> measure (\<lambda>(s, substr). length s)"
    by (cases s; cases substr) simp_all
qed

declare Count.simps [simp del]

text \<open>
  \<^verbatim>\<open>strings.ReplaceAll(s, old, new)\<close> replaces the non-overlapping instances of \<open>old\<close>,
  found from left to right. With an empty \<open>old\<close> Go inserts \<open>new\<close> before every UTF-8
  sequence and at the end; the handler never passes one, and that case is given for
  single-byte characters.
\<close>

function ReplaceAll :: "string \<Rightarrow> string \<Rightarrow> string \<Rightarrow> string" where
  "ReplaceAll s old new =
     (case Index s old of
        None \<Rightarrow> s
      | Some m \<Rightarrow>
          if old = [] then concat (map (\<lambda>c. new @ [c]) s) @ new
          else take m s @ new @ ReplaceAll (drop (m + length old) s) old new)"
  by pat_completeness auto
termination
proof (relation "measure (\<lambda>(s, old, new). length s)")
  show "wf (measure (\<lambda>(s, old, new). length s))"
    by simp
next
  fix s old new :: string and m :: nat
  assume "Index s old = Some m" and "old \<noteq> []"
  then have "s \<noteq> []"
    by (cases s) simp_all
  with \<open>old \<noteq> []\<close>
  show "((drop (m + length old) s, old, new), (s, old, new)) \<in> measure (\<lambda>(s, old, new). length s)"
    by (cases s; cases old) simp_all
qed

declare ReplaceAll.simps [simp del]

text \<open>
  \<^verbatim>\<open>strings.TrimSpace\<close> removes the leading and trailing runes for which
  \<^verbatim>\<open>unicode.IsSpace\<close> holds. \<open>spaceRunes\<close> lists their UTF-8 encodings: the six ASCII
  ones, U+0085, U+00A0, U+1680, U+2000 to U+200A, U+2028, U+2029, U+202F, U+205F, U+3000.
\<close>

definition spaceRunes :: "string list" where
  "spaceRunes =
     [[CHR 0x09], [CHR 0x0A], [CHR 0x0B], [CHR 0x0C], [CHR 0x0D], [CHR 0x20],
      [CHR 0xC2, CHR 0x85], [CHR 0xC2, CHR 0xA0],
      [CHR 0xE1, CHR 0x9A, CHR 0x80],
      [CHR 0xE2, CHR 0x80, CHR 0x80], [CHR 0xE2, CHR 0x80, CHR 0x81],
      [CHR 0xE2, CHR 0x80, CHR 0x82], [CHR 0xE2, CHR 0x80, CHR 0x83],
      [CHR 0xE2, CHR 0x80, CHR 0x84], [CHR 0xE2, CHR 0x80, CHR 0x85],
      [CHR 0xE2, CHR 0x80, CHR 0x86], [CHR 0xE2, CHR 0x80, CHR 0x87],
      [CHR 0xE2, CHR 0x80, CHR 0x88], [CHR 0xE2, CHR 0x80, CHR 0x89],
      [CHR 0xE2, CHR 0x80, CHR 0x8A],
      [CHR 0xE2, CHR 0x80, CHR 0xA8], [CHR 0xE2, CHR 0x80, CHR 0xA9],
      [CHR 0xE2, CHR 0x80, CHR 0xAF],
      [CHR 0xE2, CHR 0x81, CHR 0x9F],
      [CHR 0xE3, CHR 0x80, CHR 0x80]]"

text \<open>The width in bytes of the space rune that \<open>s\<close> starts (ends) with, 0 if there is none.\<close>

definition leadingSpace :: "string \<Rightarrow> nat" where
  "leadingSpace s = (case find (HasPrefix s) spaceRunes of None \<Rightarrow> 0 | Some w \<Rightarrow> length w)"

definition trailingSpace :: "string \<Rightarrow> nat" where
  "trailingSpace s = (case find (HasSuffix s) spaceRunes of None \<Rightarrow> 0 | Some w \<Rightarrow> length w)"

function TrimLeftSpace :: "string \<Rightarrow> string" where
  "TrimLeftSpace s =
     (if leadingSpace s = 0 then s else TrimLeftSpace (drop (leadingSpace s) s))"
  by pat_completeness auto
termination
proof (relation "measure length")
  show "wf (measure (length :: string \<Rightarrow> nat))"
    by simp
next
  fix s :: string
  assume n: "leadingSpace s \<noteq> 0"
  have "leadingSpace [] = 0"
    by (simp add: leadingSpace_def spaceRunes_def)
  with n have "s \<noteq> []"
    by auto
  with n show "(drop (leadingSpace s) s, s) \<in> measure length"
    by simp
qed

function TrimRightSpace :: "string \<Rightarrow> string" where
  "TrimRightSpace s =
     (if trailingSpace s = 0 then s else TrimRightSpace (take (length s - trailingSpace s) s))"
  by pat_completeness auto
termination
proof (relation "measure length")
  show "wf (measure (length :: string \<Rightarrow> nat))"
    by simp
next
  fix s :: string
  assume n: "trailingSpace s \<noteq> 0"
  have "trailingSpace [] = 0"
    by (simp add: trailingSpace_def spaceRunes_def HasSuffix_def)
  with n have "s \<noteq> []"
    by auto
  with n show "(take (length s - trailingSpace s) s, s) \<in> measure length"
    by simp
qed

declare TrimLeftSpace.simps [simp del] TrimRightSpace.simps [simp del]

definition TrimSpace :: "string \<Rightarrow> string" where
  "TrimSpace s = TrimRightSpace (TrimLeftSpace s)"

text \<open>
  \<^verbatim>\<open>template.HTMLEscapeString\<close> rewrites six bytes: NUL becomes U+FFFD, and the double and
  single quote, the ampersand and the angle brackets become character references.
\<close>

definition htmlEscapeByte :: "char \<Rightarrow> string" where
  "htmlEscapeByte c =
     (if c = CHR 0x00 then [CHR 0xEF, CHR 0xBF, CHR 0xBD]
      else if c = CHR 0x22 then ''&#34;''
      else if c = CHR 0x27 then ''&#39;''
      else if c = CHR ''&'' then ''&amp;''
      else if c = CHR ''<'' then ''&lt;''
      else if c = CHR ''>'' then ''&gt;''
      else [c])"

definition HTMLEscapeString :: "string \<Rightarrow> string" where
  "HTMLEscapeString s = concat (map htmlEscapeByte s)"


section \<open>The claims model\<close>

text \<open>
  The fields of \<^verbatim>\<open>token.User\<close>, \<^verbatim>\<open>token.Handshake\<close> and \<^verbatim>\<open>token.Claims\<close> (with the embedded
  \<^verbatim>\<open>jwt.StandardClaims\<close>) that the handler reads or writes. A field the handler leaves out
  of a composite literal has Go's zero value: the empty string, 0, \<open>False\<close>, and \<open>None\<close>
  for a nil pointer.
\<close>

record User =
  Name :: string
  ID :: string
  Picture :: string

record Handshake =
  State :: string
  From :: string
  ID :: string

record Claims =
  User :: "User option"
  Handshake :: "Handshake option"
  SessionOnly :: bool
  Audience :: string
  ExpiresAt :: int
  NotBefore :: int
  Issuer :: string
  Id :: string

section \<open>Collaborators\<close>

text \<open>
  A Go \<^verbatim>\<open>error\<close> is its message; a call returning \<^verbatim>\<open>(v, error)\<close> is a sum with the error on
  the left, a call returning only \<^verbatim>\<open>error\<close> an option with \<open>None\<close> for nil.
\<close>

record Request =
  Query :: "(string \<times> string) list"
  Header :: "(string \<times> string) list"

text \<open>\<^verbatim>\<open>r.URL.Query().Get(key)\<close>: the first value of the key, the empty string without one.\<close>

definition QueryGet :: "Request \<Rightarrow> string \<Rightarrow> string" where
  "QueryGet r key = (case map_of (Query r) key of None \<Rightarrow> [] | Some v \<Rightarrow> v)"

text \<open>The interface \<^verbatim>\<open>VerifTokenService\<close>; \<open>Set\<close> and \<open>Get\<close> without the writer's side.\<close>

record VerifTokenService =
  Token :: "Claims \<Rightarrow> string + string"
  Parse :: "string \<Rightarrow> string + Claims"
  IsExpired :: "Claims \<Rightarrow> bool"
  Set :: "Claims \<Rightarrow> string + Claims"
  Get :: "Request \<Rightarrow> string + (Claims \<times> string)"

text \<open>The anonymous struct that \<^verbatim>\<open>sendConfirmation\<close> hands to the template.\<close>

record tmplData =
  User :: string
  Address :: string
  Token :: string
  Site :: string

text \<open>
  \<^verbatim>\<open>VerifyHandler\<close>. The logger is left out (it returns nothing and changes nothing).
  \<open>Template\<close> is \<^verbatim>\<open>Template.Execute\<close> into a fresh buffer, \<open>Sender\<close> is \<^verbatim>\<open>Sender.Send\<close>,
  a nil \<open>UserSaver\<close> or \<open>AvatarSaver\<close> is \<open>None\<close>. The token service, the sender and the
  template are taken to be set, as the handler uses them without a test.
\<close>

record VerifyHandler =
  ProviderName :: string
  TokenService :: VerifTokenService
  Issuer :: string
  AvatarSaver :: "(User \<Rightarrow> string + User) option"
  UserSaver :: "(User \<Rightarrow> string option) option"
  WithPassword :: bool
  Sender :: "string \<Rightarrow> string \<Rightarrow> string option"
  Template :: "tmplData \<Rightarrow> string + string"
  UseGravatar :: bool

text \<open>
  What the handler calls outside this package and outside its own fields:
  \<^verbatim>\<open>bluemonday.UGCPolicy().Sanitize\<close>, \<^verbatim>\<open>token.HashID(sha1.New(), _)\<close>,
  \<^verbatim>\<open>avatar.GetGravatarURL\<close>, \<^verbatim>\<open>randToken()\<close> and the clock. \<open>Now k\<close> is the k-th reading
  of \<^verbatim>\<open>time.Now()\<close> within one call of a handler, in Unix seconds (adding whole minutes and
  taking \<^verbatim>\<open>Unix()\<close> commute).
\<close>

record Extern =
  UGCSanitize :: "string \<Rightarrow> string"
  HashID :: "string \<Rightarrow> string"
  GetGravatarURL :: "string \<Rightarrow> string + string"
  randToken :: "string + string"
  Now :: "nat \<Rightarrow> int"

text \<open>
  Modelled from the spec: \<^verbatim>\<open>setAvatar\<close>, the helper of package \<^verbatim>\<open>provider\<close> that runs the
  avatar step, is not among the sources. The spec describes it as passing the identity
  through the injected, optional avatar persistence \<^verbatim>\<open>save(user, httpClient) -> (user, error)\<close>,
  an error of that step failing the request.
\<close>

definition setAvatar :: "(User \<Rightarrow> string + User) option \<Rightarrow> User \<Rightarrow> string + User" where
  "setAvatar ava u = (case ava of None \<Rightarrow> Inr u | Some save \<Rightarrow> save u)"

section \<open>Responses and effects\<close>

text \<open>
  A handler writes one response and calls its collaborators on the way. The model returns
  the calls that have an effect, in order, and the response. \<open>Panic\<close> is the run-time panic
  of dereferencing a nil pointer: the handler writes no response at all.
\<close>

datatype JSON =
  JSONString string
| JSONUser "User option"
| JSONObject "(string \<times> string) list"

datatype Response =
  SendErrorJSON nat "string option" string
| RenderJSON JSON
| Redirect string nat
| NoResponse
| Panic

datatype Event =
  CallToken Claims
| CallExecute tmplData
| CallSend string string
| CallUserSaver User
| CallSet Claims

abbreviation StatusTemporaryRedirect :: nat where "StatusTemporaryRedirect \<equiv> 307"
abbreviation StatusBadRequest :: nat where "StatusBadRequest \<equiv> 400"
abbreviation StatusForbidden :: nat where "StatusForbidden \<equiv> 403"
abbreviation StatusInternalServerError :: nat where "StatusInternalServerError \<equiv> 500"

text \<open>The claims handed to \<^verbatim>\<open>TokenService.Token\<close> and to \<^verbatim>\<open>TokenService.Set\<close>, the template
  data rendered and the messages sent, read off the calls.\<close>

fun tokensIssued :: "Event list \<Rightarrow> Claims list" where
  "tokensIssued [] = []"
| "tokensIssued (CallToken c # es) = c # tokensIssued es"
| "tokensIssued (_ # es) = tokensIssued es"

fun tokensSet :: "Event list \<Rightarrow> Claims list" where
  "tokensSet [] = []"
| "tokensSet (CallSet c # es) = c # tokensSet es"
| "tokensSet (_ # es) = tokensSet es"

fun rendered :: "Event list \<Rightarrow> tmplData list" where
  "rendered [] = []"
| "rendered (CallExecute d # es) = d # rendered es"
| "rendered (_ # es) = rendered es"

fun messagesSent :: "Event list \<Rightarrow> (string \<times> string) list" where
  "messagesSent [] = []"
| "messagesSent (CallSend a t # es) = (a, t) # messagesSent es"
| "messagesSent (_ # es) = messagesSent es"

section \<open>The sanitizer\<close>

text \<open>\<^verbatim>\<open>VerifyHandler.sanitize\<close>, statement by statement.\<close>

definition sanitize :: "Extern \<Rightarrow> string \<Rightarrow> string" where
  "sanitize x inp =
     (let res = UGCSanitize x inp;
          res = HTMLEscapeString res;
          res = ReplaceAll res ''&amp;'' ''&'';
          res = ReplaceAll res ''&#34;'' [CHR 0x22];
          res = ReplaceAll res ''&#39;'' [CHR 0x27];
          res = ReplaceAll res [CHR 0x0A] [];
          res = TrimSpace res
      in if length res > 128 then take 128 res else res)"

section \<open>The handlers\<close>

text \<open>\<^verbatim>\<open>VerifyHandler.sendConfirmation\<close>: the branch of the login handler without a token.\<close>

definition sendConfirmation :: "VerifyHandler \<Rightarrow> Extern \<Rightarrow> Request \<Rightarrow> Event list \<times> Response" where
  "sendConfirmation e x r =
     (let user = sanitize x (QueryGet r ''user'');
          address = sanitize x (QueryGet r ''address'')
      in
      if user = [] \<or> address = [] then
        ([], SendErrorJSON StatusBadRequest (Some ''wrong request'') ''can't get user and address'')
      else
        let claims =
          \<lparr>Claims.User = None,
           Handshake = Some \<lparr>State = ''confirm'', From = [], Handshake.ID = user @ ''::'' @ address\<rparr>,
           SessionOnly = (QueryGet r ''session'' \<noteq> [] \<and> QueryGet r ''session'' \<noteq> ''0''),
           Audience = sanitize x (QueryGet r ''site''),
           ExpiresAt = Now x 0 + 30 * 60,
           NotBefore = Now x 1 - 1 * 60,
           Issuer = Issuer e,
           Id = []\<rparr>
        in
        case VerifTokenService.Token (TokenService e) claims of
          Inl err \<Rightarrow>
            ([CallToken claims], SendErrorJSON StatusForbidden (Some err) ''failed to make login token'')
        | Inr tkn \<Rightarrow>
            let data = \<lparr>tmplData.User = user, Address = address, tmplData.Token = tkn,
                        Site = QueryGet r ''site''\<rparr>
            in
            case Template e data of
              Inl err \<Rightarrow>
                ([CallToken claims, CallExecute data],
                 SendErrorJSON StatusInternalServerError (Some err)
                   ''can't execute confirmation template'')
            | Inr buf \<Rightarrow>
                (case Sender e address buf of
                   Some err \<Rightarrow>
                     ([CallToken claims, CallExecute data, CallSend address buf],
                      SendErrorJSON StatusInternalServerError (Some err)
                        ''failed to send confirmation'')
                 | None \<Rightarrow>
                     ([CallToken claims, CallExecute data, CallSend address buf],
                      RenderJSON (JSONObject [(''user'', user), (''address'', address)]))))"

text \<open>
  \<^verbatim>\<open>VerifyHandler.LoginHandler\<close> with a token presented, after the token has been checked
  and its handshake ID split; \<open>hs\<close> is \<^verbatim>\<open>*confClaims.Handshake\<close>. The body of
  \<^verbatim>\<open>if e.WithPassword { ... }\<close> (lines 117 to 141): it sets a "credentials" token and
  acknowledges.
\<close>

definition LoginHandler_withPassword ::
    "VerifyHandler \<Rightarrow> Extern \<Rightarrow> Request \<Rightarrow> Handshake \<Rightarrow> string \<Rightarrow> string \<Rightarrow> bool
       \<Rightarrow> Event list \<times> Response" where
  "LoginHandler_withPassword e x r hs user address sessOnly =
     (let claims =
        \<lparr>Claims.User =
           Some \<lparr>Name = user,
                 User.ID = ProviderName e @ ''_'' @ HashID x address,
                 Picture = []\<rparr>,
         Handshake =
           Some \<lparr>State = ''credentials'', From = [],
                 Handshake.ID = Handshake.ID hs\<rparr>,
         SessionOnly = sessOnly,
         Audience = sanitize x (QueryGet r ''site''),
         ExpiresAt = Now x 0 + 30 * 60,
         NotBefore = Now x 1 - 1 * 60,
         Issuer = Issuer e,
         Id = []\<rparr>
      in
      case Set (TokenService e) claims of
        Inl err \<Rightarrow>
          ([CallSet claims], SendErrorJSON StatusForbidden (Some err) ''failed to set token'')
      | Inr _ \<Rightarrow> ([CallSet claims], RenderJSON (JSONString ''confirmed'')))"

text \<open>
  The rest of the function (lines 144 to 192), reached without password mode: the user is
  built, given a gravatar picture if that is configured and found, passed through the
  avatar step and the user saver, and set as the session token.
\<close>

definition LoginHandler_session ::
    "VerifyHandler \<Rightarrow> Extern \<Rightarrow> Claims \<Rightarrow> Handshake \<Rightarrow> string \<Rightarrow> string \<Rightarrow> bool
       \<Rightarrow> Event list \<times> Response" where
  "LoginHandler_session e x confClaims hs user address sessOnly =
     (let u = \<lparr>Name = user,
               User.ID = ProviderName e @ ''_'' @ HashID x address,
               Picture = []\<rparr>;
          u = (if UseGravatar e \<and> Contains address ''@'' then
                 case GetGravatarURL x address of
                   Inr picURL \<Rightarrow> u\<lparr>Picture := picURL\<rparr>
                 | Inl _ \<Rightarrow> u
               else u)
      in
      case setAvatar (AvatarSaver e) u of
        Inl err \<Rightarrow>
          ([], SendErrorJSON StatusInternalServerError (Some err)
                 ''failed to save avatar to proxy'')
      | Inr u \<Rightarrow>
          let saved = (case UserSaver e of None \<Rightarrow> None | Some save \<Rightarrow> save u);
              evs = (case UserSaver e of None \<Rightarrow> [] | Some _ \<Rightarrow> [CallUserSaver u])
          in
          case saved of
            Some err \<Rightarrow>
              (evs, SendErrorJSON StatusInternalServerError (Some err) ''failed to save user'')
          | None \<Rightarrow>
              (case randToken x of
                 Inl err \<Rightarrow>
                   (evs, SendErrorJSON StatusInternalServerError (Some err)
                           ''can't make token id'')
               | Inr cid \<Rightarrow>
                   let claims =
                     \<lparr>Claims.User = Some u,
                      Handshake = None,
                      SessionOnly = sessOnly,
                      Audience = Audience confClaims,
                      ExpiresAt = 0,
                      NotBefore = 0,
                      Issuer = Issuer e,
                      Id = cid\<rparr>
                   in
                   case Set (TokenService e) claims of
                     Inl err \<Rightarrow>
                       (evs @ [CallSet claims],
                        SendErrorJSON StatusInternalServerError (Some err)
                          ''failed to set token'')
                   | Inr _ \<Rightarrow>
                       (evs @ [CallSet claims],
                        if Handshake confClaims \<noteq> None \<and> From hs \<noteq> [] then
                          Redirect (From hs) StatusTemporaryRedirect
                        else RenderJSON (JSONUser (Claims.User claims)))))"

text \<open>
  \<^verbatim>\<open>VerifyHandler.LoginHandler\<close>. The source reads \<^verbatim>\<open>confClaims.Handshake.State\<close> without
  testing the pointer, so a nil \<open>Handshake\<close> panics there.
\<close>

definition LoginHandler :: "VerifyHandler \<Rightarrow> Extern \<Rightarrow> Request \<Rightarrow> Event list \<times> Response" where
  "LoginHandler e x r =
     (let tkn = QueryGet r ''token'' in
      if tkn = [] then sendConfirmation e x r
      else
        case Parse (TokenService e) tkn of
          Inl err \<Rightarrow>
            ([], SendErrorJSON StatusForbidden (Some err) ''failed to verify confirmation token'')
        | Inr confClaims \<Rightarrow>
            if IsExpired (TokenService e) confClaims then
              ([], SendErrorJSON StatusForbidden (Some ''expired'')
                     ''failed to verify confirmation token'')
            else
              case Handshake confClaims of
                None \<Rightarrow> ([], Panic)
              | Some hs \<Rightarrow>
                  if State hs \<noteq> ''confirm'' then
                    ([], SendErrorJSON StatusForbidden (Some ''confirm'')
                           ''failed to verify confirmation token'')
                  else
                    let elems = Split (Handshake.ID hs) ''::'' in
                    if length elems \<noteq> 2 then
                      ([], SendErrorJSON StatusBadRequest (Some (Handshake.ID hs))
                             ''invalid handshake token'')
                    else
                      let user = elems ! 0;
                          address = elems ! 1;
                          sessOnly = (QueryGet r ''session'' = ''1'')
                      in
                      if WithPassword e then
                        LoginHandler_withPassword e x r hs user address sessOnly
                      else
                        LoginHandler_session e x confClaims hs user address sessOnly)"

text \<open>
  \<^verbatim>\<open>VerifyHandler.AuthHandler\<close>, the step that turns a "credentials" token into a session.
  With a user saver configured it reads \<^verbatim>\<open>*claims.User\<close>, which panics on a nil pointer.
\<close>

definition AuthHandler :: "VerifyHandler \<Rightarrow> Extern \<Rightarrow> Request \<Rightarrow> Event list \<times> Response" where
  "AuthHandler e x r =
     (if \<not> WithPassword e then ([], NoResponse)
      else
        let sessOnly = (QueryGet r ''session'' = ''1'') in
        case Get (TokenService e) r of
          Inl err \<Rightarrow>
            ([], SendErrorJSON StatusInternalServerError (Some err) ''failed to get token'')
        | Inr (claims, _) \<Rightarrow>
            if (case Handshake claims of None \<Rightarrow> True | Some hs \<Rightarrow> State hs \<noteq> ''credentials'')
            then ([], SendErrorJSON StatusInternalServerError None ''invalid kind of token'')
            else
              case (case UserSaver e of
                      None \<Rightarrow> Inr []
                    | Some save \<Rightarrow>
                        (case Claims.User claims of
                           None \<Rightarrow> Inl ([], Panic)
                         | Some u \<Rightarrow>
                             (case save u of
                                Some err \<Rightarrow>
                                  Inl ([CallUserSaver u],
                                       SendErrorJSON StatusInternalServerError (Some err)
                                         ''failed to save user'')
                              | None \<Rightarrow> Inr [CallUserSaver u]))) of
                Inl out \<Rightarrow> out
              | Inr evs \<Rightarrow>
                  (case randToken x of
                     Inl err \<Rightarrow>
                       (evs, SendErrorJSON StatusInternalServerError (Some err)
                               ''can't make token id'')
                   | Inr cid \<Rightarrow>
                       let authClaims =
                         \<lparr>Claims.User = Claims.User claims,
                          Handshake = None,
                          SessionOnly = sessOnly,
                          Audience = Audience claims,
                          ExpiresAt = 0,
                          NotBefore = 0,
                          Issuer = Issuer e,
                          Id = cid\<rparr>
                       in
                       case Set (TokenService e) authClaims of
                         Inl err \<Rightarrow>
                           (evs @ [CallSet authClaims],
                            SendErrorJSON StatusInternalServerError (Some err)
                              ''failed to set token'')
                       | Inr _ \<Rightarrow>
                           (evs @ [CallSet authClaims],
                            RenderJSON (JSONUser (Claims.User authClaims)))))"

section \<open>A concrete installation\<close>

text \<open>
  The theorems below hold for every handler, every collaborator and every request. To
  run the model, this section fixes one installation: provider \<^verbatim>\<open>providerX\<close>, a token
  service whose tokens are the keys of a table, a clock standing at 1000, a sender and a
  user store that accept everything. On text without markup, quotes, ampersands or
  control characters the UGC policy returns its input; the installation's policy is the
  identity, and it is only ever applied to such text.
\<close>

definition demoExtern :: Extern where
  "demoExtern =
     \<lparr>UGCSanitize = (\<lambda>s. s),
      HashID = (\<lambda>a. ''sha1-of-'' @ a),
      GetGravatarURL = (\<lambda>a. Inl ''no gravatar''),
      randToken = Inr ''token-id-1'',
      Now = (\<lambda>k. 1000)\<rparr>"

definition confirmClaims :: "string \<Rightarrow> Claims" where
  "confirmClaims hid =
     \<lparr>Claims.User = None,
      Handshake = Some \<lparr>State = ''confirm'', From = [], Handshake.ID = hid\<rparr>,
      SessionOnly = True,
      Audience = ''s1'',
      ExpiresAt = 2800,
      NotBefore = 940,
      Issuer = ''iss'',
      Id = []\<rparr>"

definition sessionClaims :: Claims where
  "sessionClaims =
     \<lparr>Claims.User = Some \<lparr>Name = ''ann'', User.ID = ''providerX_sha1-of-ann@example.com'',
                           Picture = []\<rparr>,
      Handshake = None,
      SessionOnly = False,
      Audience = ''s1'',
      ExpiresAt = 90000,
      NotBefore = 0,
      Issuer = ''iss'',
      Id = ''token-id-0''\<rparr>"

definition demoTokens :: "(string \<times> Claims) list" where
  "demoTokens =
     [(''T-ann'', confirmClaims ''ann::ann@example.com''),
      (''T-bob'', confirmClaims ''bob::ann@example.com''),
      (''T-none'', confirmClaims ''ann''),
      (''T-many'', confirmClaims ''a::b::c''),
      (''T-session'', sessionClaims)]"

definition demoService :: VerifTokenService where
  "demoService =
     \<lparr>VerifTokenService.Token = (\<lambda>c. Inr ''T-new''),
      Parse = (\<lambda>t. case map_of demoTokens t of
                       None \<Rightarrow> Inl ''token is invalid''
                     | Some c \<Rightarrow> Inr c),
      IsExpired = (\<lambda>c. ExpiresAt c < 1000),
      Set = (\<lambda>c. Inr c),
      Get = (\<lambda>r. case map_of (Header r) ''X-JWT'' of
                     None \<Rightarrow> Inl ''token is not presented''
                   | Some t \<Rightarrow>
                       (case map_of demoTokens t of
                          None \<Rightarrow> Inl ''token is invalid''
                        | Some c \<Rightarrow> Inr (c, t)))\<rparr>"

definition demoHandler :: "bool \<Rightarrow> VerifyHandler" where
  "demoHandler withPassword =
     \<lparr>ProviderName = ''providerX'',
      TokenService = demoService,
      Issuer = ''iss'',
      AvatarSaver = None,
      UserSaver = Some (\<lambda>u. None),
      WithPassword = withPassword,
      Sender = (\<lambda>address text. None),
      Template = (\<lambda>d. Inr (''Confirm '' @ tmplData.Token d @ '' for '' @ Site d)),
      UseGravatar = False\<rparr>"

definition demoRequest :: "(string \<times> string) list \<Rightarrow> Request" where
  "demoRequest q = \<lparr>Query = q, Header = []\<rparr>"

text \<open>
  Two requests to \<^verbatim>\<open>/login\<close>: one asks for a confirmation (the site is written with a
  leading blank), one presents a token. Both carry \<^verbatim>\<open>session=true\<close>.
\<close>

definition demoConfirm :: Request where
  "demoConfirm =
     demoRequest [(''user'', ''ann''), (''address'', ''ann@example.com''), (''site'', '' s1''),
                  (''session'', ''true'')]"

definition demoLogin :: "string \<Rightarrow> Request" where
  "demoLogin t = demoRequest [(''token'', t), (''session'', ''true'')]"

text \<open>
  The requests of a resolution that meet the words "a valid, unexpired confirm token whose
  handshake ID splits into user and address": a token is presented, it parses to \<open>conf\<close>,
  the service does not report it expired, and its handshake is in state "confirm" with an
  ID of exactly these two parts.
\<close>

definition presentsConfirmToken ::
    "VerifyHandler \<Rightarrow> Request \<Rightarrow> Claims \<Rightarrow> string \<Rightarrow> string \<Rightarrow> bool" where
  "presentsConfirmToken e r conf user address =
     (QueryGet r ''token'' \<noteq> [] \<and>
      Parse (TokenService e) (QueryGet r ''token'') = Inr conf \<and>
      \<not> IsExpired (TokenService e) conf \<and>
      (case Handshake conf of
         None \<Rightarrow> False
       | Some hs \<Rightarrow> State hs = ''confirm'' \<and> Split (Handshake.ID hs) ''::'' = [user, address]))"

section \<open>Facts about the string functions\<close>

lemma HasPrefix_single: "HasPrefix t [p] \<longleftrightarrow> t \<noteq> [] \<and> hd t = p"
  by (cases t) simp_all

lemma HasSuffix_single: "HasSuffix s [p] \<longleftrightarrow> s \<noteq> [] \<and> last s = p"
  by (simp add: HasSuffix_def HasPrefix_single hd_rev)

text \<open>
  The first separator of \<open>u @ ''::'' @ a\<close> is the one written between the two parts,
  provided \<open>u\<close> holds none and does not end in a colon (a final colon would pair with the
  first colon of the separator).
\<close>

lemma Index_at_separator:
  "Index u ''::'' = None \<Longrightarrow> \<not> HasSuffix u '':'' \<Longrightarrow>
     Index (u @ ''::'' @ a) ''::'' = Some (length u)"
proof (induction u)
  case Nil
  show ?case by simp
next
  case (Cons c u)
  from Cons.prems(1) have none: "Index u ''::'' = None" and nopre: "\<not> HasPrefix (c # u) ''::''"
    by (simp_all split: if_splits)
  show ?case
  proof (cases u)
    case Nil
    with Cons.prems(2) show ?thesis
      by (simp add: HasSuffix_single)
  next
    case (Cons d u')
    with Cons.prems(2) have "\<not> HasSuffix u '':''"
      by (simp add: HasSuffix_single)
    with none Cons.IH have "Index (u @ ''::'' @ a) ''::'' = Some (length u)"
      by simp
    with nopre Cons show ?thesis
      by simp
  qed
qed

lemma Split_without_separator: "Index s sep = None \<Longrightarrow> Split s sep = [s]"
  by (simp add: Split.simps)

text \<open>A split has one part more than there are separators.\<close>

lemma length_Split: "sep \<noteq> [] \<Longrightarrow> length (Split s sep) = Suc (Count s sep)"
proof (induction s sep rule: Split.induct)
  case (1 s sep)
  show ?case
  proof (cases "Index s sep")
    case None
    then show ?thesis
      by (simp add: Split.simps [of s] Count.simps [of s])
  next
    case (Some m)
    with 1 show ?thesis
      by (simp add: Split.simps [of s] Count.simps [of s])
  qed
qed

lemma Split_at_separator:
  assumes "Index u ''::'' = None" and "\<not> HasSuffix u '':''" and "Index a ''::'' = None"
  shows "Split (u @ ''::'' @ a) ''::'' = [u, a]"
proof -
  have "Index (u @ ''::'' @ a) ''::'' = Some (length u)"
    using assms(1,2) by (rule Index_at_separator)
  then have "Split (u @ ''::'' @ a) ''::'' = u # Split a ''::''"
    by (subst Split.simps) simp
  with assms(3) show ?thesis
    by (simp add: Split_without_separator)
qed

section \<open>Facts about the handlers\<close>

lemma length_sanitize: "length (sanitize x inp) \<le> 128"
  by (simp add: sanitize_def Let_def)

lemma sendConfirmation_sets_nothing: "tokensSet (fst (sendConfirmation e x r)) = []"
  by (simp add: sendConfirmation_def Let_def split: sum.splits option.splits)

lemma withPassword_response:
  "snd (LoginHandler_withPassword e x r hs user address sess)
     \<noteq> SendErrorJSON StatusBadRequest err ''invalid handshake token''"
  by (simp add: LoginHandler_withPassword_def Let_def split: sum.splits)

lemma session_response:
  "snd (LoginHandler_session e x conf hs user address sess)
     \<noteq> SendErrorJSON StatusBadRequest err ''invalid handshake token''"
  by (simp add: LoginHandler_session_def Let_def split: sum.splits option.splits if_splits)

lemma withPassword_sessionOnly:
  "c \<in> set (tokensSet (fst (LoginHandler_withPassword e x r hs user address sess)))
     \<Longrightarrow> SessionOnly c = sess"
  by (auto simp: LoginHandler_withPassword_def Let_def split: sum.splits)

lemma session_sessionOnly:
  "c \<in> set (tokensSet (fst (LoginHandler_session e x conf hs user address sess)))
     \<Longrightarrow> SessionOnly c = sess"
  by (auto simp: LoginHandler_session_def Let_def split: sum.splits option.splits if_splits)

text \<open>
  Each branch of the login handler sets one token and the confirmation step asks for one,
  whether or not the token service then fails; the session branch gets that far when the
  avatar step, the user saver and the token-id generator do not fail.
\<close>

lemma withPassword_sets_one:
  "map SessionOnly (tokensSet (fst (LoginHandler_withPassword e x r hs user address sess))) = [sess]"
  by (simp add: LoginHandler_withPassword_def Let_def split: sum.splits)

lemma session_sets_one:
  assumes avatar: "\<forall>u. \<exists>u'. setAvatar (AvatarSaver e) u = Inr u'"
      and saver: "\<forall>save u. UserSaver e = Some save \<longrightarrow> save u = None"
      and rand: "\<exists>cid. randToken x = Inr cid"
  shows "map SessionOnly (tokensSet (fst (LoginHandler_session e x conf hs user address sess)))
           = [sess]"
proof -
  from avatar obtain keep where keep: "\<And>u. setAvatar (AvatarSaver e) u = Inr (keep u)"
    by metis
  from rand obtain cid where cid: "randToken x = Inr cid"
    by blast
  show ?thesis
  proof (cases "UserSaver e")
    case None
    then show ?thesis
      by (simp add: LoginHandler_session_def Let_def keep cid split: sum.splits)
  next
    case (Some save)
    with saver have "\<And>u. save u = None"
      by simp
    with Some show ?thesis
      by (simp add: LoginHandler_session_def Let_def keep cid split: sum.splits)
  qed
qed

lemma sendConfirmation_issues_one:
  assumes "sanitize x (QueryGet r ''user'') \<noteq> []" and "sanitize x (QueryGet r ''address'') \<noteq> []"
  shows "map SessionOnly (tokensIssued (fst (sendConfirmation e x r)))
           = [QueryGet r ''session'' \<noteq> [] \<and> QueryGet r ''session'' \<noteq> ''0'']"
  using assms by (simp add: sendConfirmation_def Let_def split: sum.splits option.splits)

text \<open>
  Every presented token that parses, is not expired and has no handshake makes the login
  handler panic; every request that the credentials step refuses for its token, it
  refuses with status 500.
\<close>

lemma LoginHandler_nil_handshake:
  assumes "QueryGet r ''token'' \<noteq> []"
      and "Parse (TokenService e) (QueryGet r ''token'') = Inr conf"
      and "\<not> IsExpired (TokenService e) conf"
      and "Handshake conf = None"
  shows "LoginHandler e x r = ([], Panic)"
  using assms by (simp add: LoginHandler_def)

lemma AuthHandler_refusal:
  assumes "WithPassword e"
      and "case Get (TokenService e) r of
             Inl err \<Rightarrow> True
           | Inr (claims, t) \<Rightarrow>
               (case Handshake claims of None \<Rightarrow> True | Some hs \<Rightarrow> State hs \<noteq> ''credentials'')"
  shows "\<exists>err details.
           AuthHandler e x r = ([], SendErrorJSON StatusInternalServerError err details)"
  using assms by (auto simp: AuthHandler_def split: sum.splits option.splits)

text \<open>A request that presents a good confirmation token reaches one of the two branches.\<close>

lemma LoginHandler_confirmed:
  assumes "presentsConfirmToken e r conf user address"
  obtains hs where "Handshake conf = Some hs"
    and "LoginHandler e x r =
           (if WithPassword e
            then LoginHandler_withPassword e x r hs user address (QueryGet r ''session'' = ''1'')
            else LoginHandler_session e x conf hs user address (QueryGet r ''session'' = ''1''))"
proof -
  from assms obtain hs where "QueryGet r ''token'' \<noteq> []"
    and "Parse (TokenService e) (QueryGet r ''token'') = Inr conf"
    and "\<not> IsExpired (TokenService e) conf"
    and hs: "Handshake conf = Some hs" and "State hs = ''confirm''"
    and "Split (Handshake.ID hs) ''::'' = [user, address]"
    by (auto simp: presentsConfirmToken_def split: option.splits)
  then have "LoginHandler e x r =
           (if WithPassword e
            then LoginHandler_withPassword e x r hs user address (QueryGet r ''session'' = ''1'')
            else LoginHandler_session e x conf hs user address (QueryGet r ''session'' = ''1''))"
    by (simp add: LoginHandler_def Let_def)
  with hs show thesis
    by (rule that)
qed

text \<open>
  The session branch, when no collaborator fails and the avatar step keeps the ID: one
  token is set, and it is a session token for the identity of the address.
\<close>

lemma LoginHandler_session_claims:
  assumes avatar: "\<forall>u. \<exists>u'. setAvatar (AvatarSaver e) u = Inr u' \<and> User.ID u' = User.ID u"
      and saver: "\<forall>save u. UserSaver e = Some save \<longrightarrow> save u = None"
      and rand: "\<exists>cid. randToken x = Inr cid"
      and set: "\<forall>c. \<exists>c'. Set (TokenService e) c = Inr c'"
  shows "\<exists>c. tokensSet (fst (LoginHandler_session e x conf hs user address sess)) = [c] \<and>
              Handshake c = None \<and>
              map_option User.ID (Claims.User c)
                = Some (ProviderName e @ ''_'' @ HashID x address) \<and>
              Audience c = Audience conf"
proof -
  from avatar obtain keep
    where keep: "\<And>u. setAvatar (AvatarSaver e) u = Inr (keep u)"
      "\<And>u. User.ID (keep u) = User.ID u"
    by metis
  from set obtain stored where stored: "\<And>c. Set (TokenService e) c = Inr (stored c)"
    by metis
  from rand obtain cid where cid: "randToken x = Inr cid"
    by blast
  show ?thesis
  proof (cases "UserSaver e")
    case None
    then show ?thesis
      by (simp add: LoginHandler_session_def Let_def keep stored cid split: sum.splits)
  next
    case (Some save)
    with saver have "\<And>u. save u = None"
      by simp
    with Some show ?thesis
      by (simp add: LoginHandler_session_def Let_def keep stored cid split: sum.splits)
  qed
qed

section \<open>The installation, evaluated\<close>

lemma sanitize_ann: "sanitize demoExtern ''ann'' = ''ann''"
  by code_simp

lemma sanitize_address: "sanitize demoExtern ''ann@example.com'' = ''ann@example.com''"
  by code_simp

lemma sanitize_site: "sanitize demoExtern '' s1'' = ''s1''"
  by code_simp

lemma sanitize_empty: "sanitize demoExtern [] = []"
  by code_simp

lemma demoConfirm_query:
  "QueryGet demoConfirm ''user'' = ''ann''"
  "QueryGet demoConfirm ''address'' = ''ann@example.com''"
  "QueryGet demoConfirm ''site'' = '' s1''"
  "QueryGet demoConfirm ''session'' = ''true''"
  by (simp_all add: QueryGet_def demoConfirm_def demoRequest_def)

lemma demoLogin_query:
  "QueryGet (demoLogin t) ''token'' = t"
  "QueryGet (demoLogin t) ''session'' = ''true''"
  by (simp_all add: QueryGet_def demoLogin_def demoRequest_def)

lemma presents_ann:
  "presentsConfirmToken (demoHandler False) (demoLogin ''T-ann'')
     (confirmClaims ''ann::ann@example.com'') ''ann'' ''ann@example.com''"
  by code_simp

lemma presents_ann_password:
  "presentsConfirmToken (demoHandler True) (demoLogin ''T-ann'')
     (confirmClaims ''ann::ann@example.com'') ''ann'' ''ann@example.com''"
  by code_simp

lemma presents_bob:
  "presentsConfirmToken (demoHandler False) (demoLogin ''T-bob'')
     (confirmClaims ''bob::ann@example.com'') ''bob'' ''ann@example.com''"
  by code_simp

lemma demo_parse:
  "Parse (TokenService (demoHandler pw)) ''T-ann'' = Inr (confirmClaims ''ann::ann@example.com'')"
  "Parse (TokenService (demoHandler pw)) ''T-none'' = Inr (confirmClaims ''ann'')"
  "Parse (TokenService (demoHandler pw)) ''T-many'' = Inr (confirmClaims ''a::b::c'')"
  by (simp_all add: demoHandler_def demoService_def demoTokens_def)

lemma demo_unexpired: "\<not> IsExpired (TokenService (demoHandler pw)) (confirmClaims hid)"
  by (simp add: demoHandler_def demoService_def confirmClaims_def)

lemma demo_handshake:
  "Handshake (confirmClaims hid) = Some \<lparr>State = ''confirm'', From = [], Handshake.ID = hid\<rparr>"
  by (simp add: confirmClaims_def)

lemma demo_avatar:
  "\<forall>u. \<exists>u'. setAvatar (AvatarSaver (demoHandler pw)) u = Inr u' \<and> User.ID u' = User.ID u"
  by (simp add: demoHandler_def setAvatar_def)

lemma demo_saver: "\<forall>save u. UserSaver (demoHandler pw) = Some save \<longrightarrow> save u = None"
  by (auto simp add: demoHandler_def)

lemma demo_rand: "\<exists>cid. randToken demoExtern = Inr cid"
  by (simp add: demoExtern_def)

lemma demo_set: "\<forall>c. \<exists>c'. Set (TokenService (demoHandler pw)) c = Inr c'"
  by (simp add: demoHandler_def demoService_def)

lemma demo_avatar_runs: "\<forall>u. \<exists>u'. setAvatar (AvatarSaver (demoHandler pw)) u = Inr u'"
  by (simp add: demoHandler_def setAvatar_def)

lemma presents_ann_session1:
  "presentsConfirmToken (demoHandler True) (demoRequest [(''token'', ''T-ann''), (''session'', ''1'')])
     (confirmClaims ''ann::ann@example.com'') ''ann'' ''ann@example.com''"
  by code_simp

section \<open>The composite handshake ID\<close>

text \<open>
  C1 says that for every pair of inputs the ID \<open>sanitize user @ ''::'' @ sanitize address\<close>
  splits back into exactly its two fields, because the sanitizer keeps the separator out
  of both. The sanitizer does nothing to colons. With the user name \<^verbatim>\<open>a::b\<close> the ID has
  three parts, which the login handler then rejects; with the user name \<^verbatim>\<open>a:\<close> and the
  address \<^verbatim>\<open>b\<close> the ID \<^verbatim>\<open>a:::b\<close> splits into \<^verbatim>\<open>a\<close> and \<^verbatim>\<open>:b\<close>.
\<close>

theorem sanitize_admits_separator:
  "Split (sanitize demoExtern ''a::b'' @ ''::'' @ sanitize demoExtern ''c'') ''::''
     \<noteq> [sanitize demoExtern ''a::b'', sanitize demoExtern ''c''] \<and>
   Split (sanitize demoExtern ''a:'' @ ''::'' @ sanitize demoExtern ''b'') ''::''
     \<noteq> [sanitize demoExtern ''a:'', sanitize demoExtern ''b'']"
  by code_simp

text \<open>
  C1 as amended: when neither sanitized field contains the separator and the sanitized
  user name does not end in a colon, splitting the ID on the separator yields exactly the
  sanitized user name and the sanitized address.
\<close>

theorem handshake_ID_roundtrip:
  assumes "\<not> Contains (sanitize x user) ''::''"
      and "\<not> HasSuffix (sanitize x user) '':''"
      and "\<not> Contains (sanitize x address) ''::''"
  shows "Split (sanitize x user @ ''::'' @ sanitize x address) ''::''
           = [sanitize x user, sanitize x address]"
proof -
  from assms(1,3)
  have u: "Index (sanitize x user) ''::'' = None" and a: "Index (sanitize x address) ''::'' = None"
    by (simp_all add: Contains_def)
  from u assms(2) a show ?thesis
    by (rule Split_at_separator)
qed

theorem handshake_ID_roundtrip_witness:
  "\<not> Contains (sanitize demoExtern ''ann'') ''::'' \<and>
   \<not> HasSuffix (sanitize demoExtern ''ann'') '':'' \<and>
   \<not> Contains (sanitize demoExtern ''ann@example.com'') ''::'' \<and>
   Split (sanitize demoExtern ''ann'' @ ''::'' @ sanitize demoExtern ''ann@example.com'') ''::''
     = [''ann'', ''ann@example.com'']"
proof -
  have 1: "\<not> Contains (sanitize demoExtern ''ann'') ''::''"
    by code_simp
  have 2: "\<not> HasSuffix (sanitize demoExtern ''ann'') '':''"
    by code_simp
  have 3: "\<not> Contains (sanitize demoExtern ''ann@example.com'') ''::''"
    by code_simp
  from handshake_ID_roundtrip [OF 1 2 3] 1 2 3 show ?thesis
    by (simp add: sanitize_ann sanitize_address)
qed

section \<open>A token without a handshake\<close>

text \<open>
  C2 says that a presented token that parses and is not expired but carries no handshake
  is answered with the invalid-state error, as a token in another state is. The
  installation's session token is such a token. The handler reads the state through the
  nil pointer and panics; no response is written (\<open>LoginHandler_nil_handshake\<close> shows it
  for every such token).
\<close>

theorem LoginHandler_nil_handshake_panics:
  "Parse (TokenService (demoHandler False)) ''T-session'' = Inr sessionClaims \<and>
   \<not> IsExpired (TokenService (demoHandler False)) sessionClaims \<and>
   Handshake sessionClaims = None \<and>
   LoginHandler (demoHandler False) demoExtern (demoLogin ''T-session'') = ([], Panic)"
  by code_simp

section \<open>The status of a refused credentials step\<close>

text \<open>
  C3 says that in password mode a request whose token is absent, or is not in state
  "credentials", is refused with the invalid-state error and HTTP status 403. The handler
  refuses both, with status 500: a request carrying a "confirm" token, and a request
  carrying no token (\<open>AuthHandler_refusal\<close> shows it for every such request).
\<close>

theorem AuthHandler_wrong_state_status:
  "AuthHandler (demoHandler True) demoExtern \<lparr>Query = [], Header = [(''X-JWT'', ''T-ann'')]\<rparr>
     = ([], SendErrorJSON 500 None ''invalid kind of token'') \<and>
   AuthHandler (demoHandler True) demoExtern \<lparr>Query = [], Header = []\<rparr>
     = ([], SendErrorJSON 500 (Some ''token is not presented'') ''failed to get token'')"
  by code_simp

section \<open>The session token\<close>

text \<open>
  C4: without password mode, resolving a valid, unexpired confirm token whose handshake ID
  splits into user and address sets one token; it has no handshake, its user ID is the
  provider name, an underscore and the hash of the address, and its audience is the one
  of the confirmation token. A second resolution for the same address, with whatever
  user name and request, gives the same user ID. The collaborators of the branch are
  taken not to fail, and the avatar step to return the identity under the ID it was given.
\<close>

theorem final_claims_password_off:
  assumes off: "\<not> WithPassword e"
      and tok: "presentsConfirmToken e r conf user address"
      and tok': "presentsConfirmToken e r' conf' user' address"
      and avatar: "\<forall>u. \<exists>u'. setAvatar (AvatarSaver e) u = Inr u' \<and> User.ID u' = User.ID u"
      and saver: "\<forall>save u. UserSaver e = Some save \<longrightarrow> save u = None"
      and rand: "\<exists>cid. randToken x = Inr cid"
      and set: "\<forall>c. \<exists>c'. Set (TokenService e) c = Inr c'"
  shows "\<exists>c c'. tokensSet (fst (LoginHandler e x r)) = [c] \<and>
                 tokensSet (fst (LoginHandler e x r')) = [c'] \<and>
                 Handshake c = None \<and>
                 map_option User.ID (Claims.User c)
                   = Some (ProviderName e @ ''_'' @ HashID x address) \<and>
                 Audience c = Audience conf \<and>
                 map_option User.ID (Claims.User c') = map_option User.ID (Claims.User c)"
proof -
  from tok obtain hs where
    "LoginHandler e x r =
       (if WithPassword e
        then LoginHandler_withPassword e x r hs user address (QueryGet r ''session'' = ''1'')
        else LoginHandler_session e x conf hs user address (QueryGet r ''session'' = ''1''))"
    by (rule LoginHandler_confirmed)
  with off have run:
    "LoginHandler e x r
       = LoginHandler_session e x conf hs user address (QueryGet r ''session'' = ''1'')"
    by simp
  from tok' obtain hs' where
    "LoginHandler e x r' =
       (if WithPassword e
        then LoginHandler_withPassword e x r' hs' user' address (QueryGet r' ''session'' = ''1'')
        else LoginHandler_session e x conf' hs' user' address (QueryGet r' ''session'' = ''1''))"
    by (rule LoginHandler_confirmed)
  with off have run':
    "LoginHandler e x r'
       = LoginHandler_session e x conf' hs' user' address (QueryGet r' ''session'' = ''1'')"
    by simp
  from LoginHandler_session_claims [OF avatar saver rand set] run
  obtain c where c: "tokensSet (fst (LoginHandler e x r)) = [c]" "Handshake c = None"
      "map_option User.ID (Claims.User c) = Some (ProviderName e @ ''_'' @ HashID x address)"
      "Audience c = Audience conf"
    by metis
  from LoginHandler_session_claims [OF avatar saver rand set] run'
  obtain c' where c': "tokensSet (fst (LoginHandler e x r')) = [c']"
      "map_option User.ID (Claims.User c') = Some (ProviderName e @ ''_'' @ HashID x address)"
    by metis
  from c(3) c'(2)
  have "map_option User.ID (Claims.User c') = map_option User.ID (Claims.User c)"
    by (simp only:)
  with c c'(1) show ?thesis
    by blast
qed

theorem final_claims_password_off_witness:
  "\<exists>c c'. tokensSet (fst (LoginHandler (demoHandler False) demoExtern (demoLogin ''T-ann''))) = [c] \<and>
          tokensSet (fst (LoginHandler (demoHandler False) demoExtern (demoLogin ''T-bob''))) = [c'] \<and>
          Handshake c = None \<and>
          map_option User.ID (Claims.User c) = Some ''providerX_sha1-of-ann@example.com'' \<and>
          Audience c = ''s1'' \<and>
          map_option User.ID (Claims.User c') = map_option User.ID (Claims.User c)"
proof -
  have off: "\<not> WithPassword (demoHandler False)"
    by (simp add: demoHandler_def)
  from final_claims_password_off
         [OF off presents_ann presents_bob demo_avatar demo_saver demo_rand demo_set]
  show ?thesis
    by (simp add: demoHandler_def demoExtern_def confirmClaims_def)
qed

section \<open>The confirmation token\<close>

text \<open>
  C5: when the sanitized user name and the sanitized address are both non-empty, the
  confirmation step asks the token service for exactly one token. Its claims are in
  handshake state "confirm", the handshake ID is the sanitized user name, the separator
  and the sanitized address, the audience is the sanitized site, there is no user, it
  expires 30 minutes (1800 seconds) after the clock reading and is valid from 1 minute
  (60 seconds) before the next reading.
\<close>

theorem sendConfirmation_claims:
  assumes "sanitize x (QueryGet r ''user'') \<noteq> []"
      and "sanitize x (QueryGet r ''address'') \<noteq> []"
  shows "\<exists>c. tokensIssued (fst (sendConfirmation e x r)) = [c] \<and>
              map_option State (Handshake c) = Some ''confirm'' \<and>
              map_option Handshake.ID (Handshake c)
                = Some (sanitize x (QueryGet r ''user'') @ ''::''
                          @ sanitize x (QueryGet r ''address'')) \<and>
              Audience c = sanitize x (QueryGet r ''site'') \<and>
              Claims.User c = None \<and>
              ExpiresAt c = Now x 0 + 1800 \<and>
              NotBefore c = Now x 1 - 60"
  using assms by (simp add: sendConfirmation_def Let_def split: sum.splits option.splits)

theorem sendConfirmation_claims_witness:
  "\<exists>c. tokensIssued (fst (sendConfirmation (demoHandler False) demoExtern demoConfirm)) = [c] \<and>
        map_option State (Handshake c) = Some ''confirm'' \<and>
        map_option Handshake.ID (Handshake c) = Some ''ann::ann@example.com'' \<and>
        Audience c = ''s1'' \<and>
        Claims.User c = None \<and>
        ExpiresAt c = 2800 \<and>
        NotBefore c = 940"
proof -
  have user: "sanitize demoExtern (QueryGet demoConfirm ''user'') \<noteq> []"
    by (simp add: demoConfirm_query sanitize_ann)
  have address: "sanitize demoExtern (QueryGet demoConfirm ''address'') \<noteq> []"
    by (simp add: demoConfirm_query sanitize_address)
  have clock: "\<And>k. Now demoExtern k = 1000"
    by (simp add: demoExtern_def)
  from sendConfirmation_claims [OF user address, of "demoHandler False"] show ?thesis
    by (simp add: demoConfirm_query sanitize_ann sanitize_address sanitize_site clock)
qed

section \<open>The credentials token\<close>

text \<open>
  C6: in password mode, resolving a valid, unexpired confirm token (one whose handshake
  ID splits into user and address), with a token service that accepts the token, makes
  exactly one call with an effect: it sets a token in handshake state "credentials" that
  carries the handshake ID of the confirmation token, the user ID made of the provider
  name, an underscore and the hash of the address, and an expiry 30 minutes after the
  clock reading. No session token is set, and the response is the acknowledgment
  \<^verbatim>\<open>"confirmed"\<close>, not a user.
\<close>

theorem credentials_token_password_on:
  assumes on: "WithPassword e"
      and tok: "presentsConfirmToken e r conf user address"
      and set: "\<forall>c. \<exists>c'. Set (TokenService e) c = Inr c'"
  shows "\<exists>c. LoginHandler e x r = ([CallSet c], RenderJSON (JSONString ''confirmed'')) \<and>
              map_option State (Handshake c) = Some ''credentials'' \<and>
              map_option Handshake.ID (Handshake c) = map_option Handshake.ID (Handshake conf) \<and>
              map_option User.ID (Claims.User c)
                = Some (ProviderName e @ ''_'' @ HashID x address) \<and>
              ExpiresAt c = Now x 0 + 1800 \<and>
              NotBefore c = Now x 1 - 60"
proof -
  from tok obtain hs where hs: "Handshake conf = Some hs" and
    "LoginHandler e x r =
       (if WithPassword e
        then LoginHandler_withPassword e x r hs user address (QueryGet r ''session'' = ''1'')
        else LoginHandler_session e x conf hs user address (QueryGet r ''session'' = ''1''))"
    by (rule LoginHandler_confirmed)
  with on have run:
    "LoginHandler e x r
       = LoginHandler_withPassword e x r hs user address (QueryGet r ''session'' = ''1'')"
    by simp
  from set obtain stored where stored: "\<And>c. Set (TokenService e) c = Inr (stored c)"
    by metis
  show ?thesis
    by (simp add: run hs LoginHandler_withPassword_def Let_def stored)
qed

theorem credentials_token_password_on_witness:
  "\<exists>c. LoginHandler (demoHandler True) demoExtern (demoLogin ''T-ann'')
          = ([CallSet c], RenderJSON (JSONString ''confirmed'')) \<and>
        map_option State (Handshake c) = Some ''credentials'' \<and>
        map_option Handshake.ID (Handshake c) = Some ''ann::ann@example.com'' \<and>
        map_option User.ID (Claims.User c) = Some ''providerX_sha1-of-ann@example.com'' \<and>
        ExpiresAt c = 2800 \<and>
        NotBefore c = 940"
proof -
  have on: "WithPassword (demoHandler True)"
    by (simp add: demoHandler_def)
  from credentials_token_password_on [OF on presents_ann_password demo_set, of demoExtern]
  show ?thesis
    by (simp add: demoHandler_def demoExtern_def confirmClaims_def)
qed

section \<open>Validation of a confirmation request\<close>

text \<open>
  C7: the confirmation step answers with the validation error (status 400, "can't get
  user and address") exactly when the sanitized user name or the sanitized address is
  empty, and then it has asked for no token and sent no message.
\<close>

theorem sendConfirmation_validation:
  "(snd (sendConfirmation e x r)
      = SendErrorJSON StatusBadRequest (Some ''wrong request'') ''can't get user and address'')
     = (sanitize x (QueryGet r ''user'') = [] \<or> sanitize x (QueryGet r ''address'') = []) \<and>
   (sanitize x (QueryGet r ''user'') = [] \<or> sanitize x (QueryGet r ''address'') = [] \<longrightarrow>
      tokensIssued (fst (sendConfirmation e x r)) = [] \<and>
      messagesSent (fst (sendConfirmation e x r)) = [])"
  by (simp add: sendConfirmation_def Let_def split: sum.splits option.splits)

theorem sendConfirmation_validation_witness:
  "snd (sendConfirmation (demoHandler False) demoExtern
          (demoRequest [(''user'', ''ann''), (''address'', [])]))
     = SendErrorJSON StatusBadRequest (Some ''wrong request'') ''can't get user and address'' \<and>
   tokensIssued (fst (sendConfirmation (demoHandler False) demoExtern
          (demoRequest [(''user'', ''ann''), (''address'', [])]))) = [] \<and>
   messagesSent (fst (sendConfirmation (demoHandler False) demoExtern
          (demoRequest [(''user'', ''ann''), (''address'', [])]))) = [] \<and>
   snd (sendConfirmation (demoHandler False) demoExtern demoConfirm)
     \<noteq> SendErrorJSON StatusBadRequest (Some ''wrong request'') ''can't get user and address''"
proof -
  have empty: "sanitize demoExtern
                 (QueryGet (demoRequest [(''user'', ''ann''), (''address'', [])]) ''address'') = []"
    by (simp add: QueryGet_def demoRequest_def sanitize_empty)
  from sendConfirmation_validation
         [of "demoHandler False" demoExtern "demoRequest [(''user'', ''ann''), (''address'', [])]"]
       sendConfirmation_validation [of "demoHandler False" demoExtern demoConfirm]
  show ?thesis
    by (simp add: empty demoConfirm_query sanitize_ann sanitize_address)
qed

section \<open>A handshake ID that does not split in two\<close>

text \<open>
  C8: for a presented token that parses, is not expired and is in handshake state
  "confirm", the login handler answers with the malformed-handshake error (status 400,
  "invalid handshake token") exactly when splitting the handshake ID on the separator
  does not give two parts, that is when the ID does not hold exactly one separator, and
  then it has neither asked for a token nor set one.
\<close>

theorem malformed_handshake_rejected:
  assumes "QueryGet r ''token'' \<noteq> []"
      and "Parse (TokenService e) (QueryGet r ''token'') = Inr conf"
      and "\<not> IsExpired (TokenService e) conf"
      and "Handshake conf = Some hs"
      and "State hs = ''confirm''"
  shows "(snd (LoginHandler e x r)
            = SendErrorJSON StatusBadRequest (Some (Handshake.ID hs)) ''invalid handshake token'')
           = (length (Split (Handshake.ID hs) ''::'') \<noteq> 2) \<and>
         (length (Split (Handshake.ID hs) ''::'') \<noteq> 2)
           = (Count (Handshake.ID hs) ''::'' \<noteq> 1) \<and>
         (length (Split (Handshake.ID hs) ''::'') \<noteq> 2 \<longrightarrow>
            tokensIssued (fst (LoginHandler e x r)) = [] \<and>
            tokensSet (fst (LoginHandler e x r)) = [])"
  using assms
  by (simp add: LoginHandler_def Let_def withPassword_response session_response length_Split)

theorem malformed_handshake_rejected_witness:
  "snd (LoginHandler (demoHandler False) demoExtern (demoLogin ''T-none''))
     = SendErrorJSON StatusBadRequest (Some ''ann'') ''invalid handshake token'' \<and>
   tokensSet (fst (LoginHandler (demoHandler False) demoExtern (demoLogin ''T-none''))) = [] \<and>
   snd (LoginHandler (demoHandler False) demoExtern (demoLogin ''T-many''))
     = SendErrorJSON StatusBadRequest (Some ''a::b::c'') ''invalid handshake token'' \<and>
   tokensSet (fst (LoginHandler (demoHandler False) demoExtern (demoLogin ''T-many''))) = [] \<and>
   snd (LoginHandler (demoHandler False) demoExtern (demoLogin ''T-ann''))
     \<noteq> SendErrorJSON StatusBadRequest (Some ''ann::ann@example.com'') ''invalid handshake token''"
proof -
  have parts: "length (Split ''ann'' ''::'') = 1" "length (Split ''a::b::c'' ''::'') = 3"
    "length (Split ''ann::ann@example.com'' ''::'') = 2"
    by code_simp+
  have presented: "QueryGet (demoLogin t) ''token'' \<noteq> []" if "t \<noteq> []" for t
    using that by (simp add: demoLogin_query)
  have state: "State \<lparr>State = ''confirm'', From = [], Handshake.ID = hid\<rparr> = ''confirm''" for hid
    by simp
  have none: "Parse (TokenService (demoHandler False)) (QueryGet (demoLogin ''T-none'') ''token'')
                = Inr (confirmClaims ''ann'')"
    and many: "Parse (TokenService (demoHandler False)) (QueryGet (demoLogin ''T-many'') ''token'')
                = Inr (confirmClaims ''a::b::c'')"
    and ann: "Parse (TokenService (demoHandler False)) (QueryGet (demoLogin ''T-ann'') ''token'')
                = Inr (confirmClaims ''ann::ann@example.com'')"
    by (simp_all add: demoLogin_query demo_parse)
  from malformed_handshake_rejected
         [OF presented none demo_unexpired demo_handshake state, of demoExtern]
       malformed_handshake_rejected
         [OF presented many demo_unexpired demo_handshake state, of demoExtern]
       malformed_handshake_rejected
         [OF presented ann demo_unexpired demo_handshake state, of demoExtern]
  show ?thesis
    by (simp add: parts)
qed

section \<open>The session-only flag\<close>

text \<open>
  C9: every token that the login handler sets, the "credentials" token and the session
  token alike, has its session-only flag equal to "the \<^verbatim>\<open>session\<close> parameter of this
  request is \<^verbatim>\<open>1\<close>", whatever the presented confirmation token says; every token that the
  confirmation step asks for has the flag equal to "the \<^verbatim>\<open>session\<close> parameter is neither
  empty nor \<^verbatim>\<open>0\<close>". These tokens exist: resolving a good confirmation token in password
  mode sets exactly one token, the "credentials" token, with that flag; without password
  mode, when the avatar step, the user saver and the token-id generator do not fail, it
  sets exactly one, the session token, with that flag; and a confirmation request with a
  non-empty sanitized user name and address asks for exactly one token, with the other
  flag. With \<^verbatim>\<open>session=true\<close> the two steps disagree: in the installation the confirmation
  token is session-only, and neither the credentials token nor the session token set for
  it is; with \<^verbatim>\<open>session=1\<close> the credentials token is.
\<close>

theorem sessionOnly_from_request:
  "(\<forall>c \<in> set (tokensSet (fst (LoginHandler e x r))).
      SessionOnly c = (QueryGet r ''session'' = ''1'')) \<and>
   (\<forall>c \<in> set (tokensIssued (fst (sendConfirmation e x r))).
      SessionOnly c = (QueryGet r ''session'' \<noteq> [] \<and> QueryGet r ''session'' \<noteq> ''0'')) \<and>
   (presentsConfirmToken e r conf user address \<and> WithPassword e \<longrightarrow>
      map SessionOnly (tokensSet (fst (LoginHandler e x r))) = [QueryGet r ''session'' = ''1'']) \<and>
   (presentsConfirmToken e r conf user address \<and> \<not> WithPassword e \<and>
    (\<forall>u. \<exists>u'. setAvatar (AvatarSaver e) u = Inr u') \<and>
    (\<forall>save u. UserSaver e = Some save \<longrightarrow> save u = None) \<and>
    (\<exists>cid. randToken x = Inr cid) \<longrightarrow>
      map SessionOnly (tokensSet (fst (LoginHandler e x r))) = [QueryGet r ''session'' = ''1'']) \<and>
   (sanitize x (QueryGet r ''user'') \<noteq> [] \<and> sanitize x (QueryGet r ''address'') \<noteq> [] \<longrightarrow>
      map SessionOnly (tokensIssued (fst (sendConfirmation e x r)))
        = [QueryGet r ''session'' \<noteq> [] \<and> QueryGet r ''session'' \<noteq> ''0''])"
proof (intro conjI impI)
  show "\<forall>c \<in> set (tokensSet (fst (LoginHandler e x r))).
          SessionOnly c = (QueryGet r ''session'' = ''1'')"
    by (auto simp: LoginHandler_def Let_def sendConfirmation_sets_nothing
          dest: withPassword_sessionOnly session_sessionOnly
          split: sum.splits option.splits if_splits)
next
  show "\<forall>c \<in> set (tokensIssued (fst (sendConfirmation e x r))).
          SessionOnly c = (QueryGet r ''session'' \<noteq> [] \<and> QueryGet r ''session'' \<noteq> ''0'')"
    by (simp add: sendConfirmation_def Let_def split: sum.splits option.splits)
next
  assume a: "presentsConfirmToken e r conf user address \<and> WithPassword e"
  then obtain hs where
    "LoginHandler e x r =
       (if WithPassword e
        then LoginHandler_withPassword e x r hs user address (QueryGet r ''session'' = ''1'')
        else LoginHandler_session e x conf hs user address (QueryGet r ''session'' = ''1''))"
    by (blast elim: LoginHandler_confirmed [where x = x])
  with a show "map SessionOnly (tokensSet (fst (LoginHandler e x r)))
                 = [QueryGet r ''session'' = ''1'']"
    by (simp add: withPassword_sets_one)
next
  assume a: "presentsConfirmToken e r conf user address \<and> \<not> WithPassword e \<and>
    (\<forall>u. \<exists>u'. setAvatar (AvatarSaver e) u = Inr u') \<and>
    (\<forall>save u. UserSaver e = Some save \<longrightarrow> save u = None) \<and>
    (\<exists>cid. randToken x = Inr cid)"
  then obtain hs where
    "LoginHandler e x r =
       (if WithPassword e
        then LoginHandler_withPassword e x r hs user address (QueryGet r ''session'' = ''1'')
        else LoginHandler_session e x conf hs user address (QueryGet r ''session'' = ''1''))"
    by (blast elim: LoginHandler_confirmed [where x = x])
  with a show "map SessionOnly (tokensSet (fst (LoginHandler e x r)))
                 = [QueryGet r ''session'' = ''1'']"
    by (simp add: session_sets_one)
next
  assume "sanitize x (QueryGet r ''user'') \<noteq> [] \<and> sanitize x (QueryGet r ''address'') \<noteq> []"
  then show "map SessionOnly (tokensIssued (fst (sendConfirmation e x r)))
               = [QueryGet r ''session'' \<noteq> [] \<and> QueryGet r ''session'' \<noteq> ''0'']"
    by (simp add: sendConfirmation_issues_one)
qed

theorem sessionOnly_from_request_witness:
  "SessionOnly (confirmClaims ''ann::ann@example.com'') \<and>
   map SessionOnly (tokensIssued (fst (sendConfirmation (demoHandler False) demoExtern demoConfirm)))
     = [True] \<and>
   map SessionOnly (tokensSet (fst (LoginHandler (demoHandler True) demoExtern (demoLogin ''T-ann''))))
     = [False] \<and>
   map SessionOnly (tokensSet (fst (LoginHandler (demoHandler True) demoExtern
       (demoRequest [(''token'', ''T-ann''), (''session'', ''1'')]))))
     = [True] \<and>
   map SessionOnly (tokensSet (fst (LoginHandler (demoHandler False) demoExtern (demoLogin ''T-ann''))))
     = [False]"
proof -
  have presented: "SessionOnly (confirmClaims ''ann::ann@example.com'')"
    by (simp add: confirmClaims_def)
  have on: "WithPassword (demoHandler True)" and off: "\<not> WithPassword (demoHandler False)"
    by (simp_all add: demoHandler_def)
  have one: "QueryGet (demoRequest [(''token'', ''T-ann''), (''session'', ''1'')]) ''session'' = ''1''"
    by (simp add: QueryGet_def demoRequest_def)
  from sessionOnly_from_request [of "demoHandler False" demoExtern demoConfirm]
  have 1: "map SessionOnly (tokensIssued (fst (sendConfirmation (demoHandler False) demoExtern demoConfirm)))
             = [True]"
    by (simp add: demoConfirm_query sanitize_ann sanitize_address)
  from sessionOnly_from_request
         [of "demoHandler True" demoExtern "demoLogin ''T-ann''"
             "confirmClaims ''ann::ann@example.com''" "''ann''" "''ann@example.com''"]
       presents_ann_password on
  have 2: "map SessionOnly (tokensSet (fst (LoginHandler (demoHandler True) demoExtern (demoLogin ''T-ann''))))
             = [False]"
    by (simp add: demoLogin_query)
  from sessionOnly_from_request
         [of "demoHandler True" demoExtern "demoRequest [(''token'', ''T-ann''), (''session'', ''1'')]"
             "confirmClaims ''ann::ann@example.com''" "''ann''" "''ann@example.com''"]
       presents_ann_session1 on
  have 3: "map SessionOnly (tokensSet (fst (LoginHandler (demoHandler True) demoExtern
             (demoRequest [(''token'', ''T-ann''), (''session'', ''1'')])))) = [True]"
    by (simp add: one)
  from sessionOnly_from_request
         [of "demoHandler False" demoExtern "demoLogin ''T-ann''"
             "confirmClaims ''ann::ann@example.com''" "''ann''" "''ann@example.com''"]
       presents_ann off demo_avatar_runs [of False] demo_saver [of False] demo_rand
  have 4: "map SessionOnly (tokensSet (fst (LoginHandler (demoHandler False) demoExtern (demoLogin ''T-ann''))))
             = [False]"
    by (simp add: demoLogin_query)
  from presented 1 2 3 4 show ?thesis
    by simp
qed

section \<open>The site in the message and in the token\<close>

text \<open>
  C10: the data that the confirmation step hands to the template carries the \<^verbatim>\<open>site\<close>
  parameter as it came in, while the audience of the claims it asks a token for is the
  sanitized parameter. The two differ for some input: a site of 129 letters is longer
  than anything the sanitizer returns.
\<close>

theorem template_site_unsanitized:
  "(\<forall>d \<in> set (rendered (fst (sendConfirmation e x r))). Site d = QueryGet r ''site'') \<and>
   (\<forall>c \<in> set (tokensIssued (fst (sendConfirmation e x r))).
      Audience c = sanitize x (QueryGet r ''site'')) \<and>
   sanitize x (replicate 129 (CHR ''a'')) \<noteq> replicate 129 (CHR ''a'')"
proof (intro conjI)
  show "\<forall>d \<in> set (rendered (fst (sendConfirmation e x r))). Site d = QueryGet r ''site''"
    by (simp add: sendConfirmation_def Let_def split: sum.splits option.splits)
  show "\<forall>c \<in> set (tokensIssued (fst (sendConfirmation e x r))).
          Audience c = sanitize x (QueryGet r ''site'')"
    by (simp add: sendConfirmation_def Let_def split: sum.splits option.splits)
  show "sanitize x (replicate 129 (CHR ''a'')) \<noteq> replicate 129 (CHR ''a'')"
  proof
    assume "sanitize x (replicate 129 (CHR ''a'')) = replicate 129 (CHR ''a'')"
    then have "length (sanitize x (replicate 129 (CHR ''a''))) = 129"
      by simp
    with length_sanitize [of x "replicate 129 (CHR ''a'')"] show False
      by simp
  qed
qed

theorem template_site_unsanitized_witness:
  "rendered (fst (sendConfirmation (demoHandler False) demoExtern demoConfirm)) \<noteq> [] \<and>
   Site (hd (rendered (fst (sendConfirmation (demoHandler False) demoExtern demoConfirm)))) = '' s1'' \<and>
   tokensIssued (fst (sendConfirmation (demoHandler False) demoExtern demoConfirm)) \<noteq> [] \<and>
   Audience (hd (tokensIssued (fst (sendConfirmation (demoHandler False) demoExtern demoConfirm)))) = ''s1'' \<and>
   messagesSent (fst (sendConfirmation (demoHandler False) demoExtern demoConfirm))
     = [(''ann@example.com'', ''Confirm T-new for  s1'')]"
proof -
  have data: "rendered (fst (sendConfirmation (demoHandler False) demoExtern demoConfirm)) \<noteq> []"
    by code_simp
  have issued: "tokensIssued (fst (sendConfirmation (demoHandler False) demoExtern demoConfirm)) \<noteq> []"
    by code_simp
  have sent: "messagesSent (fst (sendConfirmation (demoHandler False) demoExtern demoConfirm))
                = [(''ann@example.com'', ''Confirm T-new for  s1'')]"
    by code_simp
  from template_site_unsanitized [of "demoHandler False" demoExtern demoConfirm] data issued sent
  show ?thesis
    by (simp add: demoConfirm_query sanitize_site)
qed

end
